theory Spec2Isabelle
  imports Complex_Main
begin

section \<open>Python values, errors and exception propagation\<close>

text \<open>
  The values \<open>json.loads\<close> produces. A JSON object becomes a \<open>dict\<close>, written here as
  an association list that \<open>map_of\<close> reads; a JSON number with a fraction or an exponent
  becomes a \<open>float\<close> (a finite double is a rational; only its tag is ever inspected).
\<close>

datatype pyval =
    PNone
  | PBool bool
  | PInt int
  | PFloat rat
  | PStr string
  | PList "pyval list"
  | PDict "(string \<times> pyval) list"

text \<open>The three ways dacite's \<open>from_dict\<close> rejects a dict; all are subclasses of \<open>DaciteError\<close>.\<close>

datatype dacite_error =
    UnexpectedDataError
  | MissingValueError string
  | WrongTypeError string

datatype error =
    FileNotFoundError
  | JSONDecodeError
  | ValidationError
  | DaciteError dacite_error
  | AttributeError
  | ZeroDivisionError
  | ValueError
  | PygameError
  | MarkupError

text \<open>A raised exception is \<open>Inl\<close>; \<open>and_then\<close> is the sequencing of two statements.\<close>

definition and_then :: "error + 'a \<Rightarrow> ('a \<Rightarrow> error + 'b) \<Rightarrow> error + 'b" where
  "and_then r f = (case r of Inl e \<Rightarrow> Inl e | Inr x \<Rightarrow> f x)"

section \<open>Constants of the module\<close>

definition GAME_NAME :: string where
  "GAME_NAME = ''TLN Power''"

definition WIDTH :: nat where
  "WIDTH = 960"

definition HEIGHT :: nat where
  "HEIGHT = 640"

definition FPS :: nat where
  "FPS = 60"

section \<open>Surfaces\<close>

text \<open>
  A pixel with per-pixel alpha, channels in 0..255. A surface has a size and a pixel at
  every coordinate; only the coordinates inside the size are part of the picture.
\<close>

datatype pixel = RGBA int int int int

fun alpha :: "pixel \<Rightarrow> int" where
  "alpha (RGBA r g b a) = a"

record surface =
  s_width :: nat
  s_height :: nat
  pix :: "int \<Rightarrow> int \<Rightarrow> pixel"

datatype font = FONT_SM | FONT_MD | FONT_LG

section \<open>The files and assets the program reads\<close>

text \<open>
  \<open>files\<close> is the directory \<open>data/level\<close>: no entry is a missing file, \<open>Unparsable\<close> a
  file \<open>json.loads\<close> rejects. \<open>level_schema\<close> is \<open>level.schema.json\<close> as the predicate
  \<open>jsonschema.validate\<close> decides with it (the schema file is not among the sources, so
  it is a parameter). \<open>images\<close> is what \<open>pygame.image.load\<close> returns for a path,
  \<open>music_files\<close> the paths the mixer loads and plays, and \<open>font_render\<close> the size of the
  surface \<open>font.render\<close> returns for a text, or the exception it raises.
  \<open>rich_render\<close> is the rendering \<open>rich\<close>'s \<open>print\<close> (the \<open>print\<close> of this module) gives a
  string argument: the text it writes, with emoji codes and console markup replaced, or
  the exception it raises (\<open>MarkupError\<close> for a closing tag that closes nothing).
\<close>

datatype file_content = Unparsable | Document pyval

record env =
  files :: "string \<Rightarrow> file_content option"
  level_schema :: "(pyval \<Rightarrow> bool) option"
  images :: "string \<Rightarrow> surface option"
  music_files :: "string \<Rightarrow> bool"
  font_render :: "font \<Rightarrow> string \<Rightarrow> error + nat \<times> nat"
  rich_render :: "string \<Rightarrow> error + string"

section \<open>Level repository\<close>

record Level =
  name :: string
  music :: string
  background_color :: "pyval list"
  background_img :: string
  scenery_img :: string

text \<open>The annotations of the dataclass: \<open>str\<close> and \<open>list[int]\<close>.\<close>

datatype field_type = T_str | T_list_int

definition Level_fields :: "(string \<times> field_type) list" where
  "Level_fields =
     [(''name'', T_str), (''music'', T_str), (''background_color'', T_list_int),
      (''background_img'', T_str), (''scenery_img'', T_str)]"

text \<open>
  dacite's type check is Python's \<open>isinstance\<close>, item by item for \<open>list[int]\<close>;
  \<open>bool\<close> is a subclass of \<open>int\<close>, so \<open>True\<close> passes as an \<open>int\<close>.
\<close>

fun is_int :: "pyval \<Rightarrow> bool" where
  "is_int (PInt i) = True"
| "is_int (PBool b) = True"
| "is_int v = False"

fun is_instance :: "pyval \<Rightarrow> field_type \<Rightarrow> bool" where
  "is_instance (PStr s) T_str = True"
| "is_instance (PList xs) T_list_int = list_all is_int xs"
| "is_instance v ty = False"

fun str_of :: "pyval \<Rightarrow> string" where
  "str_of (PStr s) = s"
| "str_of v = []"

fun list_of_py :: "pyval \<Rightarrow> pyval list" where
  "list_of_py (PList xs) = xs"
| "list_of_py v = []"

text \<open>
  \<open>from_dict(data_class=Level, data=data, config=Config(strict=True, ...))\<close>: with
  \<open>strict\<close>, a key of \<open>data\<close> that is no field raises \<open>UnexpectedDataError\<close> first;
  then the fields are read in declaration order, a missing one raising
  \<open>MissingValueError\<close> (no field has a default) and one that fails the type check
  \<open>WrongTypeError\<close>.
\<close>

definition extra_keys :: "(string \<times> pyval) list \<Rightarrow> string list" where
  "extra_keys data = filter (\<lambda>k. k \<notin> set (map fst Level_fields)) (map fst data)"

definition field_value :: "(string \<times> pyval) list \<Rightarrow> string \<Rightarrow> field_type \<Rightarrow> error + pyval" where
  "field_value data f ty =
     (case map_of data f of
        None \<Rightarrow> Inl (DaciteError (MissingValueError f))
      | Some v \<Rightarrow> if is_instance v ty then Inr v else Inl (DaciteError (WrongTypeError f)))"

definition from_dict :: "(string \<times> pyval) list \<Rightarrow> error + Level" where
  "from_dict data =
     (if extra_keys data \<noteq> [] then Inl (DaciteError UnexpectedDataError)
      else
        and_then (field_value data ''name'' T_str) (\<lambda>v1.
        and_then (field_value data ''music'' T_str) (\<lambda>v2.
        and_then (field_value data ''background_color'' T_list_int) (\<lambda>v3.
        and_then (field_value data ''background_img'' T_str) (\<lambda>v4.
        and_then (field_value data ''scenery_img'' T_str) (\<lambda>v5.
          Inr \<lparr>name = str_of v1, music = str_of v2, background_color = list_of_py v3,
               background_img = str_of v4, scenery_img = str_of v5\<rparr>))))))"

definition level_path :: "string \<Rightarrow> string" where
  "level_path level = ''data/level/'' @ level @ ''.json''"

text \<open>
  \<open>LevelEngine.load\<close>: read and parse the level, read the schema, validate, decode.
  \<open>from_dict\<close> starts with \<open>data.keys()\<close>, which only a dict has.
\<close>

definition LevelEngine_load :: "env \<Rightarrow> string \<Rightarrow> error + Level" where
  "LevelEngine_load E level =
     (case files E (level_path level) of
        None \<Rightarrow> Inl FileNotFoundError
      | Some Unparsable \<Rightarrow> Inl JSONDecodeError
      | Some (Document data) \<Rightarrow>
          (case level_schema E of
             None \<Rightarrow> Inl FileNotFoundError
           | Some valid \<Rightarrow>
               if \<not> valid data then Inl ValidationError
               else (case data of PDict d \<Rightarrow> from_dict d | _ \<Rightarrow> Inl AttributeError)))"

section \<open>Loops\<close>

text \<open>A \<open>for\<close> loop whose body may raise: the first exception ends the loop.\<close>

fun for_each :: "('s \<Rightarrow> 'a \<Rightarrow> error + 's) \<Rightarrow> 's \<Rightarrow> 'a list \<Rightarrow> error + 's" where
  "for_each body s [] = Inr s"
| "for_each body s (x # xs) = and_then (body s x) (\<lambda>s'. for_each body s' xs)"

text \<open>
  \<open>range(start, stop, step)\<close> for the non-negative arguments the program passes:
  \<open>start, start + step, ...\<close> while below \<open>stop\<close>; a zero step raises \<open>ValueError\<close>.
\<close>

function range_from :: "nat \<Rightarrow> nat \<Rightarrow> nat \<Rightarrow> nat list" where
  "range_from x stop step =
     (if 0 < step \<and> x < stop then x # range_from (x + step) stop step else [])"
  by pat_completeness auto
termination
  by (relation "measure (\<lambda>(x, stop, step). stop - x)") auto

declare range_from.simps [simp del]

definition py_range :: "nat \<Rightarrow> nat \<Rightarrow> nat \<Rightarrow> error + nat list" where
  "py_range start stop step =
     (if step = 0 then Inl ValueError else Inr (range_from start stop step))"

text \<open>\<open>str\<close> of an integer, as the f-string \<open>f"world-{level}"\<close> formats it.\<close>

function str_nat :: "nat \<Rightarrow> string" where
  "str_nat n =
     (if n < 10 then [''0123456789'' ! n]
      else str_nat (n div 10) @ [''0123456789'' ! (n mod 10)])"
  by pat_completeness auto
termination
  by (relation "measure (\<lambda>n. n)") auto

declare str_nat.simps [simp del]

definition str_int :: "int \<Rightarrow> string" where
  "str_int i = (if i < 0 then CHR ''-'' # str_nat (nat (- i)) else str_nat (nat i))"

section \<open>Scene compositor\<close>

text \<open>
  \<open>Surface.fill(color)\<close> with a list of three or four channels in 0..255 (three: opaque);
  any other list is an invalid color argument.
\<close>

fun channel_of :: "pyval \<Rightarrow> int option" where
  "channel_of (PInt i) = (if 0 \<le> i \<and> i \<le> 255 then Some i else None)"
| "channel_of (PBool b) = Some (if b then 1 else 0)"
| "channel_of v = None"

fun color_of :: "pyval list \<Rightarrow> error + pixel" where
  "color_of [r, g, b] =
     (case (channel_of r, channel_of g, channel_of b) of
        (Some r', Some g', Some b') \<Rightarrow> Inr (RGBA r' g' b' 255)
      | _ \<Rightarrow> Inl ValueError)"
| "color_of [r, g, b, a] =
     (case (channel_of r, channel_of g, channel_of b, channel_of a) of
        (Some r', Some g', Some b', Some a') \<Rightarrow> Inr (RGBA r' g' b' a')
      | _ \<Rightarrow> Inl ValueError)"
| "color_of cs = Inl ValueError"

definition inside :: "surface \<Rightarrow> int \<Rightarrow> int \<Rightarrow> bool" where
  "inside s x y = (0 \<le> x \<and> x < int (s_width s) \<and> 0 \<le> y \<and> y < int (s_height s))"

definition fill :: "surface \<Rightarrow> pixel \<Rightarrow> surface" where
  "fill s c = s\<lparr>pix := (\<lambda>x y. if inside s x y then c else pix s x y)\<rparr>"

text \<open>
  Blitting a per-pixel-alpha source onto a per-pixel-alpha destination blends each
  pixel (pygame's \<open>ALPHA_BLEND\<close>): a destination pixel of alpha 0 takes the source
  pixel; otherwise each colour moves from the destination towards the source by the
  source's alpha, so a source pixel of alpha 0 leaves the colour as it was and one of
  alpha 255 replaces it.
\<close>

definition blend_channel :: "int \<Rightarrow> int \<Rightarrow> int \<Rightarrow> int" where
  "blend_channel sC dC sA = ((sC - dC) * sA + sC) div 256 + dC"

fun blend :: "pixel \<Rightarrow> pixel \<Rightarrow> pixel" where
  "blend (RGBA sr sg sb sa) (RGBA dr dg db da) =
     (if da = 0 then RGBA sr sg sb sa
      else RGBA (blend_channel sr dr sa) (blend_channel sg dg sa) (blend_channel sb db sa)
             (sa + da - (sa * da) div 255))"

text \<open>\<open>dst.blit(src, pos)\<close>: the part of \<open>src\<close> that falls inside \<open>dst\<close> is blended in.\<close>

definition blit :: "surface \<Rightarrow> surface \<Rightarrow> int \<times> int \<Rightarrow> surface" where
  "blit dst src pos =
     (case pos of (x0, y0) \<Rightarrow>
        dst\<lparr>pix := (\<lambda>x y.
          if inside dst x y \<and> inside src (x - x0) (y - y0)
          then blend (pix src (x - x0) (y - y0)) (pix dst x y)
          else pix dst x y)\<rparr>)"

text \<open>
  \<open>w = int(img.get_width() * HEIGHT / h)\<close>: the product is an exact integer, \<open>/\<close> is
  true division and \<open>int\<close> drops the fraction. The quotient is taken exactly here; the
  double Python computes has the same integer part for every product below \<open>2^53\<close>.
\<close>

definition scaled_width :: "surface \<Rightarrow> nat" where
  "scaled_width img = nat \<lfloor>real (s_width img * HEIGHT) / real (s_height img)\<rfloor>"

text \<open>\<open>pygame.transform.scale\<close>: a surface of the size asked for, sampled from the image.\<close>

definition transform_scale :: "surface \<Rightarrow> nat \<times> nat \<Rightarrow> surface" where
  "transform_scale img dims =
     (case dims of (w, h) \<Rightarrow>
        \<lparr>s_width = w, s_height = h,
         pix = (\<lambda>x y. pix img ((x * int (s_width img)) div int w)
                                ((y * int (s_height img)) div int h))\<rparr>)"

definition image_load :: "env \<Rightarrow> string \<Rightarrow> error + surface" where
  "image_load E filepath =
     (case images E filepath of None \<Rightarrow> Inl FileNotFoundError | Some img \<Rightarrow> Inr img)"

text \<open>
  The four lines \<open>set_background\<close> and \<open>set_scenery\<close> share: load the image, take its
  height, compute the width, rescale to \<open>(w, HEIGHT)\<close>.
\<close>

definition load_scaled :: "env \<Rightarrow> string \<Rightarrow> error + surface" where
  "load_scaled E filepath =
     and_then (image_load E filepath) (\<lambda>img.
       if s_height img = 0 then Inl ZeroDivisionError
       else Inr (transform_scale img (scaled_width img, HEIGHT)))"

text \<open>The x of every tile: \<open>range(0, WIDTH, img.get_width())\<close>.\<close>

definition tile_xs :: "surface \<Rightarrow> error + nat list" where
  "tile_xs img = py_range 0 WIDTH (s_width img)"

definition background_blits :: "surface \<Rightarrow> nat list \<Rightarrow> (int \<times> int) list" where
  "background_blits img xs = map (\<lambda>x. (int x, 0)) xs"

definition scenery_blits :: "surface \<Rightarrow> nat list \<Rightarrow> (int \<times> int) list" where
  "scenery_blits img xs = map (\<lambda>x. (int x, int HEIGHT - int (s_height img))) xs"

definition blit_all :: "surface \<Rightarrow> surface \<Rightarrow> (int \<times> int) list \<Rightarrow> surface" where
  "blit_all layer img ps = foldl (\<lambda>l p. blit l img p) layer ps"

section \<open>The state of the program\<close>

text \<open>
  A pygame event: its type and, when it has one, its \<open>key\<close> attribute. The constants are
  pygame 2's.
\<close>

datatype event = Event (ev_type: nat) (ev_key: "nat option")

definition QUIT :: nat where
  "QUIT = 256"

definition KEYDOWN :: nat where
  "KEYDOWN = 768"

definition K_q :: nat where
  "K_q = 113"

definition K_SPACE :: nat where
  "K_SPACE = 32"

definition K_LEFT :: nat where
  "K_LEFT = 1073741904"

definition K_RIGHT :: nat where
  "K_RIGHT = 1073741903"

datatype game_state = SplashScreenState | PlayingState

text \<open>
  The arguments of a \<open>print\<close> call (a string, or an event shown by its \<open>str\<close>), what a call
  wrote for each, and the calls made, in order.
\<close>

datatype print_arg = Str string | Obj event

datatype printed = Text string | Repr event

datatype call =
    C_load string
  | C_play_music string
  | C_set_background "pyval list" string
  | C_set_scenery string
  | C_write_centered_text string font "nat \<times> nat \<times> nat" "nat \<times> nat"
  | C_process_events
  | C_update
  | C_draw
  | C_tick nat

text \<open>
  The driver's \<open>done\<close> and \<open>current_state\<close>, the two layers of the visual engine, the
  console, and the trace of calls to the engines and of the driver's phases. The screen,
  the display and the mixer are devices: what reaches them is in the trace.
\<close>

record world =
  done_flag :: bool
  current_state :: game_state
  background_layer :: surface
  scenery_layer :: surface
  console :: "printed list list"
  calls :: "call list"

text \<open>
  \<open>print(*objects)\<close> of \<open>rich\<close>: the arguments are rendered in order, a string through
  the markup and emoji rendering, any other object by its \<open>str\<close>; then the line is written.
\<close>

fun render_arg :: "env \<Rightarrow> print_arg \<Rightarrow> error + printed" where
  "render_arg E (Str s) = and_then (rich_render E s) (\<lambda>t. Inr (Text t))"
| "render_arg E (Obj e) = Inr (Repr e)"

fun render_args :: "env \<Rightarrow> print_arg list \<Rightarrow> error + printed list" where
  "render_args E [] = Inr []"
| "render_args E (a # as) =
     and_then (render_arg E a) (\<lambda>p. and_then (render_args E as) (\<lambda>ps. Inr (p # ps)))"

definition py_print :: "env \<Rightarrow> print_arg list \<Rightarrow> world \<Rightarrow> error + world" where
  "py_print E objects w =
     and_then (render_args E objects) (\<lambda>ps. Inr (w\<lparr>console := console w @ [ps]\<rparr>))"

definition called :: "call \<Rightarrow> world \<Rightarrow> world" where
  "called c w = w\<lparr>calls := calls w @ [c]\<rparr>"

section \<open>Engines\<close>

text \<open>The f-string \<open>f":loud_sound: Play '{music_path}'"\<close>.\<close>

definition play_message :: "string \<Rightarrow> string" where
  "play_message path = '':loud_sound: Play '' @ [CHR 39] @ path @ [CHR 39]"

definition MusicEngine_play_music :: "env \<Rightarrow> string \<Rightarrow> world \<Rightarrow> error + world" where
  "MusicEngine_play_music E music_path w0 =
     (let w = called (C_play_music music_path) w0;
          path = ''data/assets/musics/'' @ music_path
      in if \<not> music_files E path then Inl PygameError
         else py_print E [Str (play_message path)] w)"

definition VisualEngine_set_background ::
    "env \<Rightarrow> pyval list \<Rightarrow> string \<Rightarrow> world \<Rightarrow> error + world" where
  "VisualEngine_set_background E color filepath w0 =
     (let w = called (C_set_background color filepath) w0;
          path = ''data/assets/backgrounds/'' @ filepath
      in and_then (color_of color) (\<lambda>c.
         let layer = fill (background_layer w) c
         in and_then (load_scaled E path) (\<lambda>background_img.
            and_then (tile_xs background_img) (\<lambda>xs.
              Inr (w\<lparr>background_layer :=
                     blit_all layer background_img (background_blits background_img xs)\<rparr>)))))"

definition VisualEngine_set_scenery :: "env \<Rightarrow> string \<Rightarrow> world \<Rightarrow> error + world" where
  "VisualEngine_set_scenery E filepath w0 =
     (let w = called (C_set_scenery filepath) w0;
          path = ''data/assets/backgrounds/'' @ filepath
      in and_then (load_scaled E path) (\<lambda>scenery_img.
         and_then (tile_xs scenery_img) (\<lambda>xs.
           Inr (w\<lparr>scenery_layer :=
                  blit_all (scenery_layer w) scenery_img (scenery_blits scenery_img xs)\<rparr>))))"

text \<open>
  \<open>write_centered_text\<close> renders the text (which may raise), blits it on the screen and
  returns the rendered surface; its callers read its size.
\<close>

definition VisualEngine_write_centered_text ::
    "env \<Rightarrow> string \<Rightarrow> font \<Rightarrow> nat \<times> nat \<times> nat \<Rightarrow> nat \<times> nat \<Rightarrow> world \<Rightarrow>
       error + (nat \<times> nat) \<times> world" where
  "VisualEngine_write_centered_text E txt fnt color coord w0 =
     (let w = called (C_write_centered_text txt fnt color coord) w0
      in and_then (font_render E fnt txt) (\<lambda>render. Inr (render, w)))"

section \<open>Game states\<close>

definition PlayingState_init :: "env \<Rightarrow> int \<Rightarrow> world \<Rightarrow> error + world" where
  "PlayingState_init E level w0 =
     (let w = called (C_load (''world-'' @ str_int level)) w0
      in and_then (LevelEngine_load E (''world-'' @ str_int level)) (\<lambda>lv.
         and_then (MusicEngine_play_music E (music lv) w) (\<lambda>w1.
         and_then (VisualEngine_set_background E (background_color lv) (background_img lv) w1) (\<lambda>w2.
         and_then (VisualEngine_set_scenery E (scenery_img lv) w2) (\<lambda>w3.
         and_then (VisualEngine_write_centered_text E (name lv) FONT_MD (0, 0, 0)
                     (WIDTH div 2, 16) w3) (\<lambda>r.
           Inr (snd r)))))))"

definition SplashScreenState_init :: "env \<Rightarrow> world \<Rightarrow> error + world" where
  "SplashScreenState_init E w0 =
     (let w = called (C_load ''splash'') w0
      in and_then (LevelEngine_load E ''splash'') (\<lambda>lv.
         and_then (MusicEngine_play_music E (music lv) w) (\<lambda>w1.
         and_then (VisualEngine_set_background E (background_color lv) (background_img lv) w1) (\<lambda>w2.
         and_then (VisualEngine_set_scenery E (scenery_img lv) w2) (\<lambda>w3.
         and_then (VisualEngine_write_centered_text E GAME_NAME FONT_LG (16, 86, 103)
                     (WIDTH div 2, HEIGHT div 3) w3) (\<lambda>(first_line, w4).
         and_then (VisualEngine_write_centered_text E ''Appuie sur une touche'' FONT_SM
                     (255, 255, 255)
                     (WIDTH div 2, HEIGHT div 3 + 16 + snd first_line) w4) (\<lambda>r.
           Inr (snd r))))))))"

text \<open>\<open>event.key\<close>: an event without the attribute raises \<open>AttributeError\<close>.\<close>

definition get_key :: "event \<Rightarrow> error + nat" where
  "get_key e = (case ev_key e of None \<Rightarrow> Inl AttributeError | Some k \<Rightarrow> Inr k)"

text \<open>
  The \<open>match\<close> of \<open>PlayingState.process_events\<close> for one event. The guard of the first
  \<open>case\<close> belongs to the whole or-pattern \<open>pygame.QUIT | pygame.KEYDOWN\<close>, so it is
  evaluated for either type; when it is false the later cases are tried, each matching
  \<open>KEYDOWN\<close> only. The last \<open>case\<close> repeats the one before it.
\<close>

definition PlayingState_handle :: "env \<Rightarrow> world \<Rightarrow> event \<Rightarrow> error + world" where
  "PlayingState_handle E w e =
     (if ev_type e = QUIT \<or> ev_type e = KEYDOWN then
        and_then (get_key e) (\<lambda>k.
          if k = K_q then Inr (w\<lparr>done_flag := True\<rparr>)
          else if ev_type e = KEYDOWN \<and> k = K_SPACE then py_print E [Str ''Player jump''] w
          else if ev_type e = KEYDOWN \<and> k = K_LEFT then py_print E [Str ''Player left''] w
          else if ev_type e = KEYDOWN \<and> k = K_RIGHT then py_print E [Str ''Player right''] w
          else if ev_type e = KEYDOWN \<and> k = K_RIGHT then py_print E [Str ''Player right''] w
          else Inr w)
      else Inr w)"

definition PlayingState_process_events :: "env \<Rightarrow> world \<Rightarrow> event list \<Rightarrow> error + world" where
  "PlayingState_process_events E w events = for_each (PlayingState_handle E) w events"

definition SplashScreenState_handle :: "env \<Rightarrow> world \<Rightarrow> event \<Rightarrow> error + world" where
  "SplashScreenState_handle E w0 e =
     and_then (py_print E [Str ''splash: '', Obj e] w0) (\<lambda>w.
       if ev_type e = QUIT then Inr (w\<lparr>done_flag := True\<rparr>)
       else if ev_type e = KEYDOWN then
         and_then (PlayingState_init E 1 w) (\<lambda>w'. Inr (w'\<lparr>current_state := PlayingState\<rparr>))
       else Inr w)"

definition SplashScreenState_process_events :: "env \<Rightarrow> world \<Rightarrow> event list \<Rightarrow> error + world" where
  "SplashScreenState_process_events E w events = for_each (SplashScreenState_handle E) w events"

section \<open>Game loop driver\<close>

text \<open>The three phases, dispatched on the state that is current when the phase starts.\<close>

definition process_events :: "env \<Rightarrow> world \<Rightarrow> event list \<Rightarrow> error + world" where
  "process_events E w0 events =
     (let w = called C_process_events w0
      in case current_state w of
           SplashScreenState \<Rightarrow> SplashScreenState_process_events E w events
         | PlayingState \<Rightarrow> PlayingState_process_events E w events)"

definition update :: "world \<Rightarrow> world" where
  "update w = (case current_state w of SplashScreenState \<Rightarrow> called C_update w
                                     | PlayingState \<Rightarrow> called C_update w)"

definition draw :: "world \<Rightarrow> world" where
  "draw w = (case current_state w of SplashScreenState \<Rightarrow> called C_draw w
                                   | PlayingState \<Rightarrow> called C_draw w)"

definition clock_tick :: "nat \<Rightarrow> world \<Rightarrow> world" where
  "clock_tick fps w = called (C_tick fps) w"

text \<open>
  \<open>GameEngine.loop\<close>, run on the queues \<open>pygame.event.get()\<close> will return, one per tick.
  The loop ends (\<open>Exited\<close>, with the queues it never read) when \<open>done\<close> is true at the
  top of an iteration, or with an exception; \<open>Waiting\<close> is a loop still running when the
  given queues are used up.
\<close>

datatype run = Exited world "event list list" | Raised error | Waiting world

fun GameEngine_loop :: "env \<Rightarrow> world \<Rightarrow> event list list \<Rightarrow> run" where
  "GameEngine_loop E w [] = (if done_flag w then Exited w [] else Waiting w)"
| "GameEngine_loop E w (q # qs) =
     (if done_flag w then Exited w (q # qs)
      else case process_events E w q of
             Inl e \<Rightarrow> Raised e
           | Inr w1 \<Rightarrow> GameEngine_loop E (clock_tick FPS (draw (update w1))) qs)"

text \<open>\<open>GameEngine.__init__\<close>: two transparent layers, \<open>done = False\<close>, the splash state.\<close>

definition new_layer :: surface where
  "new_layer = \<lparr>s_width = WIDTH, s_height = HEIGHT, pix = (\<lambda>x y. RGBA 0 0 0 0)\<rparr>"

definition start_world :: world where
  "start_world =
     \<lparr>done_flag = False, current_state = SplashScreenState, background_layer = new_layer,
      scenery_layer = new_layer, console = [], calls = []\<rparr>"

definition GameEngine_init :: "env \<Rightarrow> error + world" where
  "GameEngine_init E = SplashScreenState_init E start_world"

text \<open>
  Modelled from the spec: \<open>data/level/level.schema.json\<close> is missing from the sources.
  The spec's section on external interfaces gives its content: required fields
  \<open>name\<close> (string), \<open>music\<close> (string), \<open>background_color\<close> (array of 3 integers
  0-255), \<open>background_img\<close> (string), \<open>scenery_img\<close> (string); extra fields are
  schema-permitted. It is used only as a concrete value of the parameter
  \<open>level_schema\<close>.
\<close>

fun is_channel :: "pyval \<Rightarrow> bool" where
  "is_channel (PInt i) = (0 \<le> i \<and> i \<le> 255)"
| "is_channel v = False"

fun is_str :: "pyval option \<Rightarrow> bool" where
  "is_str (Some (PStr s)) = True"
| "is_str v = False"

fun is_rgb :: "pyval option \<Rightarrow> bool" where
  "is_rgb (Some (PList xs)) = (length xs = 3 \<and> list_all is_channel xs)"
| "is_rgb v = False"

fun spec_schema :: "pyval \<Rightarrow> bool" where
  "spec_schema (PDict d) =
     (is_str (map_of d ''name'') \<and> is_str (map_of d ''music'') \<and>
      is_rgb (map_of d ''background_color'') \<and> is_str (map_of d ''background_img'') \<and>
      is_str (map_of d ''scenery_img''))"
| "spec_schema v = False"

text \<open>
  The words of the strict-decode property, over a dict: a required field is missing,
  a key is no field, a field that is present fails its annotation.
\<close>

definition missing_field :: "(string \<times> pyval) list \<Rightarrow> bool" where
  "missing_field d = list_ex (\<lambda>f. map_of d f = None) (map fst Level_fields)"

definition extra_field :: "(string \<times> pyval) list \<Rightarrow> bool" where
  "extra_field d = list_ex (\<lambda>k. k \<notin> set (map fst Level_fields)) (map fst d)"

definition wrong_typed_field :: "(string \<times> pyval) list \<Rightarrow> bool" where
  "wrong_typed_field d =
     list_ex (\<lambda>(f, ty). case map_of d f of None \<Rightarrow> False | Some v \<Rightarrow> \<not> is_instance v ty)
       Level_fields"

definition is_decode_error :: "error + 'a \<Rightarrow> bool" where
  "is_decode_error r = (case r of Inl (DaciteError e) \<Rightarrow> True | _ \<Rightarrow> False)"

definition decode_reached :: "error + 'a \<Rightarrow> bool" where
  "decode_reached r =
     (case r of Inr lv \<Rightarrow> True | Inl (DaciteError e) \<Rightarrow> True | Inl AttributeError \<Rightarrow> True
      | Inl e \<Rightarrow> False)"

text \<open>The width the aspect-preserving-scale property states: the quotient, rounded.\<close>

definition spec_scaled_width :: "nat \<Rightarrow> nat \<Rightarrow> nat" where
  "spec_scaled_width ow h = nat (round (real ow * real HEIGHT / real h))"

text \<open>
  The calls the construction of \<open>PlayingState(..., 1)\<close> makes for the level it loads, and
  what it needs of the assets to complete: music the mixer plays, a console message
  \<open>rich\<close> renders, a valid color, two images that load, rescale and tile, and a title the
  font renders.
\<close>

definition construction_calls :: "Level \<Rightarrow> call list" where
  "construction_calls lv =
     [C_load ''world-1'', C_play_music (music lv),
      C_set_background (background_color lv) (background_img lv),
      C_set_scenery (scenery_img lv),
      C_write_centered_text (name lv) FONT_MD (0, 0, 0) (WIDTH div 2, 16)]"

definition succeeds :: "error + 'a \<Rightarrow> bool" where
  "succeeds r = (case r of Inl e \<Rightarrow> False | Inr x \<Rightarrow> True)"

definition assets_ok :: "env \<Rightarrow> Level \<Rightarrow> bool" where
  "assets_ok E lv =
     (music_files E (''data/assets/musics/'' @ music lv) \<and>
      succeeds (rich_render E (play_message (''data/assets/musics/'' @ music lv))) \<and>
      succeeds (font_render E FONT_MD (name lv)) \<and>
      succeeds (color_of (background_color lv)) \<and>
      succeeds (and_then (load_scaled E (''data/assets/backgrounds/'' @ background_img lv)) tile_xs) \<and>
      succeeds (and_then (load_scaled E (''data/assets/backgrounds/'' @ scenery_img lv)) tile_xs))"

definition is_keydown :: "event \<Rightarrow> bool" where
  "is_keydown e = (ev_type e = KEYDOWN)"

definition result_calls :: "error + world \<Rightarrow> call list" where
  "result_calls r = (case r of Inl e \<Rightarrow> [] | Inr w \<Rightarrow> calls w)"

definition result_pixel :: "error + world \<Rightarrow> int \<Rightarrow> int \<Rightarrow> error + pixel" where
  "result_pixel r x y = (case r of Inl e \<Rightarrow> Inl e | Inr w \<Rightarrow> Inr (pix (scenery_layer w) x y))"

text \<open>Two layers show the same picture: the same size and the same pixels inside it.\<close>

definition same_picture :: "surface \<Rightarrow> surface \<Rightarrow> bool" where
  "same_picture a b =
     (s_width a = s_width b \<and> s_height a = s_height b \<and>
      (\<forall>x y. inside a x y \<longrightarrow> pix a x y = pix b x y))"

section \<open>An installation to run the program on\<close>

text \<open>
  The example scenario of the spec: \<open>splash.json\<close> as given there, a level 1, two documents
  the schema rejects, images of 3 by 2 pixels (rescaled to 960 by 640, one tile) and one
  of 5 by 8 (rescaled to 400 by 640, three tiles). \<open>grass.png\<close> is transparent in its
  upper half, as scenery drawn over a sky is. \<open>demo_render\<close> is what \<open>rich\<close> writes for the
  strings this installation prints: the emoji code \<open>:loud_sound:\<close> of the two music
  messages becomes the speaker emoji (four bytes in UTF-8), a string with no bracket and
  at most one colon is written as it is; no other string is printed here.
\<close>

definition splash_json :: "(string \<times> pyval) list" where
  "splash_json =
     [(''name'', PStr ''Splash''), (''music'', PStr ''intro.ogg''),
      (''background_color'', PList [PInt 0, PInt 0, PInt 0]),
      (''background_img'', PStr ''sky.png''), (''scenery_img'', PStr ''ground.png'')]"

definition world1_json :: "(string \<times> pyval) list" where
  "world1_json =
     [(''name'', PStr ''World 1''), (''music'', PStr ''level1.ogg''),
      (''background_color'', PList [PInt 135, PInt 206, PInt 235]),
      (''background_img'', PStr ''hills.png''), (''scenery_img'', PStr ''grass.png'')]"

definition noname_json :: "(string \<times> pyval) list" where
  "noname_json =
     [(''music'', PStr ''intro.ogg''),
      (''background_color'', PList [PInt 0, PInt 0, PInt 0]),
      (''background_img'', PStr ''sky.png''), (''scenery_img'', PStr ''ground.png'')]"

definition fourcolor_json :: "(string \<times> pyval) list" where
  "fourcolor_json =
     [(''name'', PStr ''Splash''), (''music'', PStr ''intro.ogg''),
      (''background_color'', PList [PInt 0, PInt 0, PInt 0, PInt 0]),
      (''background_img'', PStr ''sky.png''), (''scenery_img'', PStr ''ground.png'')]"

definition extra_json :: "(string \<times> pyval) list" where
  "extra_json = splash_json @ [(''gravity'', PInt 10)]"

definition flat_image :: "pixel \<Rightarrow> surface" where
  "flat_image c = \<lparr>s_width = 3, s_height = 2, pix = (\<lambda>x y. c)\<rparr>"

definition grass_image :: surface where
  "grass_image =
     \<lparr>s_width = 3, s_height = 2,
      pix = (\<lambda>x y. if y = 0 then RGBA 0 0 0 0 else RGBA 0 255 0 255)\<rparr>"

definition pillar_image :: surface where
  "pillar_image = \<lparr>s_width = 5, s_height = 8, pix = (\<lambda>x y. RGBA 128 128 128 255)\<rparr>"

definition speaker :: string where
  "speaker = [CHR 0xF0, CHR 0x9F, CHR 0x94, CHR 0x8A]"

definition demo_render :: "string \<Rightarrow> error + string" where
  "demo_render s =
     (if s = play_message ''data/assets/musics/intro.ogg''
      then Inr (speaker @ '' Play '' @ [CHR 39] @ ''data/assets/musics/intro.ogg'' @ [CHR 39])
      else if s = play_message ''data/assets/musics/level1.ogg''
      then Inr (speaker @ '' Play '' @ [CHR 39] @ ''data/assets/musics/level1.ogg'' @ [CHR 39])
      else if CHR 91 \<notin> set s \<and> count_list s (CHR 58) \<le> 1 then Inr s
      else Inl MarkupError)"

definition demo_env :: env where
  "demo_env =
     \<lparr>files =
        [level_path ''splash'' \<mapsto> Document (PDict splash_json),
         level_path ''world-1'' \<mapsto> Document (PDict world1_json),
         level_path ''noname'' \<mapsto> Document (PDict noname_json),
         level_path ''fourcolor'' \<mapsto> Document (PDict fourcolor_json),
         level_path ''extra'' \<mapsto> Document (PDict extra_json)],
      level_schema = Some spec_schema,
      images =
        [''data/assets/backgrounds/sky.png'' \<mapsto> flat_image (RGBA 0 0 64 255),
         ''data/assets/backgrounds/ground.png'' \<mapsto> flat_image (RGBA 96 64 0 255),
         ''data/assets/backgrounds/hills.png'' \<mapsto> flat_image (RGBA 0 0 255 255),
         ''data/assets/backgrounds/grass.png'' \<mapsto> grass_image,
         ''data/assets/backgrounds/pillar.png'' \<mapsto> pillar_image],
      music_files = (\<lambda>p. True),
      font_render = (\<lambda>f s. Inr (10 * length s, 20)),
      rich_render = demo_render\<rparr>"

definition world1_level :: Level where
  "world1_level =
     \<lparr>name = ''World 1'', music = ''level1.ogg'',
      background_color = [PInt 135, PInt 206, PInt 235],
      background_img = ''hills.png'', scenery_img = ''grass.png''\<rparr>"

definition quit_event :: event where
  "quit_event = Event QUIT None"

section \<open>Basic facts\<close>

lemma and_then_Inl [simp]: "and_then (Inl e) f = Inl e"
  by (simp add: and_then_def)

lemma and_then_Inr [simp]: "and_then (Inr x) f = f x"
  by (simp add: and_then_def)

lemma succeeds_Inr: "succeeds r \<Longrightarrow> \<exists>x. r = Inr x"
  by (cases r) (simp_all add: succeeds_def)

lemma event_types_differ: "QUIT \<noteq> KEYDOWN"
  by (simp add: QUIT_def KEYDOWN_def)

section \<open>Level repository: strict decode behind the schema gate\<close>

lemma extra_keys_iff: "extra_keys d \<noteq> [] \<longleftrightarrow> extra_field d"
  by (auto simp: extra_keys_def extra_field_def list_ex_iff filter_empty_conv)

lemma is_instance_str: "is_instance v T_str \<Longrightarrow> v = PStr (str_of v)"
  by (cases v) auto

lemma is_instance_list: "is_instance v T_list_int \<Longrightarrow> v = PList (list_of_py v)"
  by (cases v) auto

lemma from_dict_rejects:
  assumes "missing_field d \<or> extra_field d \<or> wrong_typed_field d"
  shows "\<exists>e. from_dict d = Inl (DaciteError e)"
proof (cases "extra_field d")
  case True
  then show ?thesis by (simp add: from_dict_def extra_keys_iff)
next
  case False
  with assms have "missing_field d \<or> wrong_typed_field d" by simp
  then show ?thesis
    using False
    by (auto simp: from_dict_def extra_keys_iff missing_field_def wrong_typed_field_def
        Level_fields_def field_value_def and_then_def split: option.splits sum.splits)
qed

lemma from_dict_accepts:
  assumes "\<not> missing_field d" "\<not> extra_field d" "\<not> wrong_typed_field d"
  shows "\<exists>lv. from_dict d = Inr lv \<and>
      map_of d ''name'' = Some (PStr (name lv)) \<and>
      map_of d ''music'' = Some (PStr (music lv)) \<and>
      map_of d ''background_color'' = Some (PList (background_color lv)) \<and>
      map_of d ''background_img'' = Some (PStr (background_img lv)) \<and>
      map_of d ''scenery_img'' = Some (PStr (scenery_img lv))"
  using assms
  by (auto simp: from_dict_def extra_keys_iff missing_field_def wrong_typed_field_def
        Level_fields_def field_value_def and_then_def
        dest: is_instance_str is_instance_list split: option.splits)

lemma load_validated:
  assumes "files E (level_path level) = Some (Document (PDict d))"
      and "level_schema E = Some valid" and "valid (PDict d)"
  shows "LevelEngine_load E level = from_dict d"
  using assms by (simp add: LevelEngine_load_def)

lemma demo_files:
  "files demo_env (level_path ''splash'') = Some (Document (PDict splash_json))"
  "files demo_env (level_path ''world-1'') = Some (Document (PDict world1_json))"
  "files demo_env (level_path ''noname'') = Some (Document (PDict noname_json))"
  "files demo_env (level_path ''fourcolor'') = Some (Document (PDict fourcolor_json))"
  "files demo_env (level_path ''extra'') = Some (Document (PDict extra_json))"
  "level_schema demo_env = Some spec_schema"
  by (simp_all add: demo_env_def level_path_def)

lemma demo_documents:
  "spec_schema (PDict splash_json)" "spec_schema (PDict world1_json)"
  "\<not> spec_schema (PDict noname_json)" "\<not> spec_schema (PDict fourcolor_json)"
  "spec_schema (PDict extra_json)"
  by (simp_all add: splash_json_def world1_json_def noname_json_def fourcolor_json_def
      extra_json_def)

lemma demo_shapes:
  "\<not> missing_field splash_json" "\<not> extra_field splash_json" "\<not> wrong_typed_field splash_json"
  "missing_field noname_json" "extra_field extra_json"
  "\<not> missing_field fourcolor_json" "\<not> extra_field fourcolor_json"
  "\<not> wrong_typed_field fourcolor_json"
  by (simp_all add: missing_field_def extra_field_def wrong_typed_field_def Level_fields_def
      splash_json_def noname_json_def fourcolor_json_def extra_json_def)

lemma load_world1: "LevelEngine_load demo_env ''world-1'' = Inr world1_level"
  by (simp add: load_validated [OF demo_files(2) demo_files(6) demo_documents(2)])
     (simp add: from_dict_def extra_keys_def field_value_def Level_fields_def world1_json_def
        world1_level_def)

text \<open>
  C1, as the code has it. \<open>load\<close> validates before it decodes, so the strict decode
  decides only for a JSON object that passed the schema:
  if such an object misses one of the five \<open>Level\<close> fields, has a key that is no field, or
  has a field that fails its annotation (by \<open>isinstance\<close>), \<open>load\<close> raises a dacite error;
  if it has exactly the five fields, each passing its annotation, \<open>load\<close> returns a
  \<open>Level\<close> whose every field is the input value.
\<close>

theorem load_strict_decode:
  assumes "files E (level_path level) = Some (Document (PDict d))"
      and "level_schema E = Some valid" and "valid (PDict d)"
  shows "(missing_field d \<or> extra_field d \<or> wrong_typed_field d \<longrightarrow>
            (\<exists>e. LevelEngine_load E level = Inl (DaciteError e))) \<and>
         (\<not> missing_field d \<and> \<not> extra_field d \<and> \<not> wrong_typed_field d \<longrightarrow>
            (\<exists>lv. LevelEngine_load E level = Inr lv \<and>
               map_of d ''name'' = Some (PStr (name lv)) \<and>
               map_of d ''music'' = Some (PStr (music lv)) \<and>
               map_of d ''background_color'' = Some (PList (background_color lv)) \<and>
               map_of d ''background_img'' = Some (PStr (background_img lv)) \<and>
               map_of d ''scenery_img'' = Some (PStr (scenery_img lv))))"
proof -
  have eq: "LevelEngine_load E level = from_dict d"
    using assms by (rule load_validated)
  show ?thesis
    unfolding eq using from_dict_rejects [of d] from_dict_accepts [of d] by blast
qed

theorem load_strict_decode_witness:
  "spec_schema (PDict splash_json) \<and> spec_schema (PDict extra_json) \<and>
   extra_field extra_json \<and>
   is_decode_error (LevelEngine_load demo_env ''extra'') \<and>
   \<not> missing_field splash_json \<and> \<not> extra_field splash_json \<and>
   \<not> wrong_typed_field splash_json \<and>
   LevelEngine_load demo_env ''splash'' =
     Inr \<lparr>name = ''Splash'', music = ''intro.ogg'',
          background_color = [PInt 0, PInt 0, PInt 0],
          background_img = ''sky.png'', scenery_img = ''ground.png''\<rparr>"
proof -
  have a: "\<exists>e. LevelEngine_load demo_env ''extra'' = Inl (DaciteError e)"
    using load_strict_decode [OF demo_files(5) demo_files(6) demo_documents(5)]
      demo_shapes(5) by blast
  have b: "\<exists>lv. LevelEngine_load demo_env ''splash'' = Inr lv \<and>
               map_of splash_json ''name'' = Some (PStr (name lv)) \<and>
               map_of splash_json ''music'' = Some (PStr (music lv)) \<and>
               map_of splash_json ''background_color'' = Some (PList (background_color lv)) \<and>
               map_of splash_json ''background_img'' = Some (PStr (background_img lv)) \<and>
               map_of splash_json ''scenery_img'' = Some (PStr (scenery_img lv))"
    using load_strict_decode [OF demo_files(1) demo_files(6) demo_documents(1)]
      demo_shapes(1-3) by blast
  from a have a': "is_decode_error (LevelEngine_load demo_env ''extra'')"
    by (auto simp: is_decode_error_def)
  from b obtain lv where lv: "LevelEngine_load demo_env ''splash'' = Inr lv"
    and f: "name lv = ''Splash''" "music lv = ''intro.ogg''"
      "background_color lv = [PInt 0, PInt 0, PInt 0]"
      "background_img lv = ''sky.png''" "scenery_img lv = ''ground.png''"
    by (auto simp: splash_json_def)
  have "lv = \<lparr>name = ''Splash'', music = ''intro.ogg'',
          background_color = [PInt 0, PInt 0, PInt 0],
          background_img = ''sky.png'', scenery_img = ''ground.png''\<rparr>"
    using f by (cases lv) simp
  with lv a' demo_documents demo_shapes show ?thesis by simp
qed

text \<open>
  C1 as stated fails: with the schema of the spec, an object that misses \<open>name\<close> is
  rejected by the validation, not by the decode; and an object with exactly the five
  fields, each of its annotated type, whose color has four channels does not load.
\<close>

theorem load_strict_decode_counterexample:
  "missing_field noname_json \<and>
   LevelEngine_load demo_env ''noname'' = Inl ValidationError \<and>
   \<not> is_decode_error (LevelEngine_load demo_env ''noname'') \<and>
   \<not> missing_field fourcolor_json \<and> \<not> extra_field fourcolor_json \<and>
   \<not> wrong_typed_field fourcolor_json \<and>
   LevelEngine_load demo_env ''fourcolor'' = Inl ValidationError"
  using demo_shapes demo_documents
  by (simp add: LevelEngine_load_def demo_files is_decode_error_def)

text \<open>
  C2: a document the schema rejects makes \<open>load\<close> raise \<open>ValidationError\<close>, and whenever
  \<open>load\<close> ends in the decode step (a \<open>Level\<close>, a dacite error, or the \<open>AttributeError\<close> of
  a document that is no dict) the document had passed the validation.
\<close>

theorem load_schema_gate:
  "(files E (level_path level) = Some (Document data) \<and> level_schema E = Some valid \<and>
      \<not> valid data \<longrightarrow> LevelEngine_load E level = Inl ValidationError) \<and>
   (decode_reached (LevelEngine_load E level) \<longrightarrow>
      (\<exists>data valid. files E (level_path level) = Some (Document data) \<and>
         level_schema E = Some valid \<and> valid data))"
proof (intro conjI impI)
  assume "files E (level_path level) = Some (Document data) \<and> level_schema E = Some valid \<and>
      \<not> valid data"
  then show "LevelEngine_load E level = Inl ValidationError"
    by (simp add: LevelEngine_load_def)
next
  assume "decode_reached (LevelEngine_load E level)"
  then show "\<exists>data valid. files E (level_path level) = Some (Document data) \<and>
         level_schema E = Some valid \<and> valid data"
    by (auto simp: LevelEngine_load_def decode_reached_def
        split: option.splits file_content.splits if_splits)
qed

theorem load_schema_gate_witness:
  "files demo_env (level_path ''fourcolor'') = Some (Document (PDict fourcolor_json)) \<and>
   level_schema demo_env = Some spec_schema \<and> \<not> spec_schema (PDict fourcolor_json) \<and>
   LevelEngine_load demo_env ''fourcolor'' = Inl ValidationError \<and>
   decode_reached (LevelEngine_load demo_env ''world-1'') \<and>
   (\<exists>data valid. files demo_env (level_path ''world-1'') = Some (Document data) \<and>
      level_schema demo_env = Some valid \<and> valid data)"
proof -
  have d: "decode_reached (LevelEngine_load demo_env ''world-1'')"
    by (simp add: load_world1 decode_reached_def)
  show ?thesis
    using load_schema_gate [of demo_env "''fourcolor''" "PDict fourcolor_json" spec_schema]
      load_schema_gate [of demo_env "''world-1''" "PDict fourcolor_json" spec_schema]
      d demo_files(4,6) demo_documents(4)
    by blast
qed

section \<open>Scene compositor: rescaling and tiling\<close>

lemma range_from_step:
  "0 < step \<Longrightarrow> x < stop \<Longrightarrow>
   range_from x stop step = x # range_from (x + step) stop step"
  by (subst range_from.simps) simp

lemma range_from_stop: "stop \<le> x \<Longrightarrow> range_from x stop step = []"
  by (subst range_from.simps) simp

lemma range_from_shape:
  "range_from x stop step = map (\<lambda>i. x + i * step) [0..<length (range_from x stop step)]"
proof (induction x stop step rule: range_from.induct)
  case (1 x stop step)
  show ?case
  proof (cases "0 < step \<and> x < stop")
    case True
    let ?r = "range_from (x + step) stop step"
    have unf: "range_from x stop step = x # ?r"
      using True by (simp add: range_from_step)
    have ih: "?r = map (\<lambda>i. x + step + i * step) [0..<length ?r]"
      using 1 True by simp
    have "map (\<lambda>i. x + i * step) [0..<Suc (length ?r)]
        = x # map (\<lambda>i. x + step + i * step) [0..<length ?r]"
      by (simp add: upt_conv_Cons map_Suc_upt [symmetric] del: upt_Suc)
    then show ?thesis using unf ih by simp
  next
    case False
    then show ?thesis by (subst (1 2) range_from.simps) simp
  qed
qed

lemma range_from_last:
  "0 < step \<Longrightarrow> x < stop \<Longrightarrow>
   range_from x stop step \<noteq> [] \<and> last (range_from x stop step) < stop \<and>
   stop \<le> last (range_from x stop step) + step"
proof (induction x stop step rule: range_from.induct)
  case (1 x stop step)
  have unf: "range_from x stop step = x # range_from (x + step) stop step"
    using 1 by (simp add: range_from_step)
  show ?case
  proof (cases "x + step < stop")
    case True
    then show ?thesis using 1 unf by simp
  next
    case False
    then have "range_from (x + step) stop step = []"
      by (simp add: range_from_stop)
    then show ?thesis using unf 1 False by simp
  qed
qed

lemma range_from_covers:
  "0 < step \<Longrightarrow> x \<le> p \<Longrightarrow> p < stop \<Longrightarrow>
   \<exists>t \<in> set (range_from x stop step). t \<le> p \<and> p < t + step"
proof (induction x stop step rule: range_from.induct)
  case (1 x stop step)
  have unf: "range_from x stop step = x # range_from (x + step) stop step"
    using 1 by (simp add: range_from_step)
  show ?case
  proof (cases "p < x + step")
    case True
    then show ?thesis using 1 unf by simp
  next
    case False
    then have "\<exists>t \<in> set (range_from (x + step) stop step). t \<le> p \<and> p < t + step"
      using 1 by simp
    then show ?thesis using unf by auto
  qed
qed

lemma range_one_tile: "range_from 0 960 960 = [0]"
  by (simp add: range_from_step range_from_stop)

lemma py_range_tiles:
  assumes "0 < w"
  shows "\<exists>xs. py_range 0 W w = Inr xs \<and>
           xs = map (\<lambda>i. i * w) [0..<length xs] \<and>
           (0 < W \<longrightarrow> xs \<noteq> [] \<and> last xs < W \<and> W \<le> last xs + w) \<and>
           (\<forall>p. p < W \<longrightarrow> (\<exists>t \<in> set xs. t \<le> p \<and> p < t + w))"
proof -
  let ?xs = "range_from 0 W w"
  have r: "py_range 0 W w = Inr ?xs"
    using assms by (simp add: py_range_def)
  have shape: "?xs = map (\<lambda>i. i * w) [0..<length ?xs]"
    using range_from_shape [of 0 W w] by simp
  have edge: "0 < W \<longrightarrow> ?xs \<noteq> [] \<and> last ?xs < W \<and> W \<le> last ?xs + w"
    using range_from_last [of w 0 W] assms by blast
  have cover: "\<forall>p. p < W \<longrightarrow> (\<exists>t \<in> set ?xs. t \<le> p \<and> p < t + w)"
    using range_from_covers [of w 0 _ W] assms by blast
  from r shape edge cover show ?thesis by blast
qed

lemma scaled_width_div: "scaled_width img = (s_width img * HEIGHT) div s_height img"
  unfolding scaled_width_def by (subst floor_divide_of_nat_eq) simp

lemma load_scaled_image:
  assumes "images E path = Some img" and "0 < s_height img"
  shows "load_scaled E path = Inr (transform_scale img (scaled_width img, HEIGHT))"
  using assms by (simp add: load_scaled_def image_load_def)

lemma load_scaled_height: "load_scaled E path = Inr img \<Longrightarrow> s_height img = HEIGHT"
  by (auto simp: load_scaled_def image_load_def transform_scale_def and_then_def
      split: option.splits if_splits)

text \<open>
  C8, as the code has it: for a loaded image of width \<open>ow\<close> and height \<open>h > 0\<close>, the
  rescaled image of \<open>set_background\<close> and \<open>set_scenery\<close> has the width \<open>ow * H / h\<close> with
  its fraction dropped (\<open>int\<close> truncates; it does not round), and the height \<open>H\<close>.
\<close>

theorem scaled_size_truncates:
  assumes "images E path = Some img" and "0 < s_height img"
  shows "\<exists>img'. load_scaled E path = Inr img' \<and>
           s_width img' = (s_width img * HEIGHT) div s_height img \<and>
           int (s_width img') = \<lfloor>real (s_width img) * real HEIGHT / real (s_height img)\<rfloor> \<and>
           s_height img' = HEIGHT"
proof -
  have w: "int (scaled_width img) = \<lfloor>real (s_width img) * real HEIGHT / real (s_height img)\<rfloor>"
    by (simp add: scaled_width_def)
  show ?thesis
    using load_scaled_image [OF assms] w
    by (simp add: transform_scale_def scaled_width_div)
qed

lemma demo_images:
  "images demo_env ''data/assets/backgrounds/sky.png'' = Some (flat_image (RGBA 0 0 64 255))"
  "images demo_env ''data/assets/backgrounds/ground.png'' = Some (flat_image (RGBA 96 64 0 255))"
  "images demo_env ''data/assets/backgrounds/hills.png'' = Some (flat_image (RGBA 0 0 255 255))"
  "images demo_env ''data/assets/backgrounds/grass.png'' = Some grass_image"
  "images demo_env ''data/assets/backgrounds/pillar.png'' = Some pillar_image"
  by (simp_all add: demo_env_def)

theorem scaled_size_truncates_witness:
  "images demo_env ''data/assets/backgrounds/grass.png'' = Some grass_image \<and>
   0 < s_height grass_image \<and>
   (\<exists>img'. load_scaled demo_env ''data/assets/backgrounds/grass.png'' = Inr img' \<and>
      s_width img' = 960 \<and> s_height img' = 640)"
proof -
  have h: "0 < s_height grass_image"
    by (simp add: grass_image_def)
  show ?thesis
    using scaled_size_truncates [OF demo_images(4) h] demo_images(4) h
    by (simp add: grass_image_def HEIGHT_def)
qed

text \<open>
  C8 as stated fails: an image of 100 by 96 pixels is rescaled to the width 666, while
  \<open>100 * 640 / 96 = 666.67\<close> rounds to 667.
\<close>

theorem scaled_width_counterexample:
  "scaled_width \<lparr>s_width = 100, s_height = 96, pix = (\<lambda>x y. RGBA 0 0 0 255)\<rparr> = 666 \<and>
   spec_scaled_width 100 96 = 667"
proof -
  have "round (real 100 * real 640 / real 96) = (667::int)"
    by (simp add: round_def)
  then show ?thesis
    by (simp add: scaled_width_div spec_scaled_width_def HEIGHT_def)
qed

lemma set_scenery_result:
  assumes "load_scaled E (''data/assets/backgrounds/'' @ filepath) = Inr img"
      and "tile_xs img = Inr xs"
  shows "VisualEngine_set_scenery E filepath w =
           Inr ((called (C_set_scenery filepath) w)
                  \<lparr>scenery_layer := blit_all (scenery_layer w) img (scenery_blits img xs)\<rparr>)"
  using assms by (simp add: VisualEngine_set_scenery_def Let_def called_def)

lemma set_background_result:
  assumes "color_of color = Inr c"
      and "load_scaled E (''data/assets/backgrounds/'' @ filepath) = Inr img"
      and "tile_xs img = Inr xs"
  shows "VisualEngine_set_background E color filepath w =
           Inr ((called (C_set_background color filepath) w)
                  \<lparr>background_layer :=
                     blit_all (fill (background_layer w) c) img (background_blits img xs)\<rparr>)"
  using assms by (simp add: VisualEngine_set_background_def Let_def called_def)

text \<open>
  C10: an image that \<open>set_scenery\<close> loads is rescaled to the height of the viewport, so
  \<open>HEIGHT - scenery_img.get_height()\<close> is 0: every tile is blitted at \<open>y = 0\<close> and spans
  the rows \<open>0 .. HEIGHT - 1\<close>, the whole viewport rather than a strip along its bottom.
\<close>

theorem scenery_tiles_at_top:
  assumes "load_scaled E (''data/assets/backgrounds/'' @ filepath) = Inr img"
      and "tile_xs img = Inr xs"
  shows "s_height img = 640 \<and>
         int HEIGHT - int (s_height img) = 0 \<and>
         scenery_blits img xs = map (\<lambda>x. (int x, 0)) xs \<and>
         (\<forall>y. inside img 0 y \<longleftrightarrow> 0 < s_width img \<and> 0 \<le> y \<and> y < int HEIGHT) \<and>
         VisualEngine_set_scenery E filepath w =
           Inr ((called (C_set_scenery filepath) w)
                  \<lparr>scenery_layer := blit_all (scenery_layer w) img (map (\<lambda>x. (int x, 0)) xs)\<rparr>)"
proof -
  have h: "s_height img = HEIGHT"
    using assms(1) by (rule load_scaled_height)
  have b: "scenery_blits img xs = map (\<lambda>x. (int x, 0)) xs"
    by (simp add: scenery_blits_def h)
  have s: "VisualEngine_set_scenery E filepath w =
           Inr ((called (C_set_scenery filepath) w)
                  \<lparr>scenery_layer := blit_all (scenery_layer w) img (map (\<lambda>x. (int x, 0)) xs)\<rparr>)"
    using set_scenery_result [OF assms, of w] b by simp
  show ?thesis
    using h b s by (auto simp: inside_def HEIGHT_def)
qed

lemma grass_scaled:
  "load_scaled demo_env ''data/assets/backgrounds/grass.png'' =
     Inr (transform_scale grass_image (960, 640))"
proof -
  have h: "0 < s_height grass_image"
    by (simp add: grass_image_def)
  show ?thesis
    using load_scaled_image [OF demo_images(4) h]
    by (simp add: scaled_width_div grass_image_def HEIGHT_def)
qed

lemma tile_xs_960: "s_width img = 960 \<Longrightarrow> tile_xs img = Inr [0]"
  by (simp add: tile_xs_def py_range_def WIDTH_def range_one_tile)

theorem scenery_tiles_at_top_witness:
  "load_scaled demo_env (''data/assets/backgrounds/'' @ ''grass.png'') =
     Inr (transform_scale grass_image (960, 640)) \<and>
   tile_xs (transform_scale grass_image (960, 640)) = Inr [0] \<and>
   s_height (transform_scale grass_image (960, 640)) = 640 \<and>
   scenery_blits (transform_scale grass_image (960, 640)) [0] = [(0, 0)]"
proof -
  have l: "load_scaled demo_env (''data/assets/backgrounds/'' @ ''grass.png'') =
     Inr (transform_scale grass_image (960, 640))"
    using grass_scaled by simp
  have t: "tile_xs (transform_scale grass_image (960, 640)) = Inr [0]"
    by (rule tile_xs_960) (simp add: transform_scale_def)
  show ?thesis
    using scenery_tiles_at_top [OF l t, of start_world] l t by simp
qed


text \<open>
  C7: for a scaled image of width \<open>w > 0\<close>, the loop \<open>range(0, W, w)\<close> places its tiles at
  \<open>0, w, 2w, ...\<close> for every width \<open>W\<close>; the last tile starts inside the viewport and its
  right edge is at or beyond \<open>W\<close>; every column of the viewport lies under a tile. In
  \<open>set_background\<close> and \<open>set_scenery\<close>, where \<open>W\<close> is \<open>WIDTH\<close>, the image is blitted at
  exactly these \<open>x\<close>, so at least one tile is placed and the whole width is covered.
\<close>

theorem tiling_covers_width:
  assumes "load_scaled E (''data/assets/backgrounds/'' @ filepath) = Inr img"
      and "0 < s_width img"
  shows "\<exists>xs. tile_xs img = Inr xs \<and>
           xs = map (\<lambda>i. i * s_width img) [0..<length xs] \<and>
           xs \<noteq> [] \<and> last xs < WIDTH \<and> WIDTH \<le> last xs + s_width img \<and>
           (\<forall>p. p < WIDTH \<longrightarrow> (\<exists>t \<in> set xs. t \<le> p \<and> p < t + s_width img)) \<and>
           (\<forall>c. color_of color = Inr c \<longrightarrow>
              VisualEngine_set_background E color filepath w =
                Inr ((called (C_set_background color filepath) w)
                       \<lparr>background_layer :=
                          blit_all (fill (background_layer w) c) img
                            (map (\<lambda>x. (int x, 0)) xs)\<rparr>)) \<and>
           VisualEngine_set_scenery E filepath w =
             Inr ((called (C_set_scenery filepath) w)
                    \<lparr>scenery_layer :=
                       blit_all (scenery_layer w) img (map (\<lambda>x. (int x, 0)) xs)\<rparr>) \<and>
           (\<forall>W. \<exists>ys. py_range 0 W (s_width img) = Inr ys \<and>
              ys = map (\<lambda>i. i * s_width img) [0..<length ys] \<and>
              (0 < W \<longrightarrow> ys \<noteq> [] \<and> last ys < W \<and> W \<le> last ys + s_width img) \<and>
              (\<forall>p. p < W \<longrightarrow> (\<exists>t \<in> set ys. t \<le> p \<and> p < t + s_width img)))"
proof -
  let ?xs = "range_from 0 WIDTH (s_width img)"
  have t: "tile_xs img = Inr ?xs"
    using assms(2) by (simp add: tile_xs_def py_range_def)
  have shape: "?xs = map (\<lambda>i. i * s_width img) [0..<length ?xs]"
    using range_from_shape [of 0 WIDTH "s_width img"] by simp
  have W: "0 < WIDTH"
    by (simp add: WIDTH_def)
  have e: "?xs \<noteq> []" "last ?xs < WIDTH" "WIDTH \<le> last ?xs + s_width img"
    using range_from_last [OF assms(2) W] by simp_all
  have cover: "\<forall>p. p < WIDTH \<longrightarrow> (\<exists>t \<in> set ?xs. t \<le> p \<and> p < t + s_width img)"
    using range_from_covers [OF assms(2), of 0 _ WIDTH] by simp
  have h: "s_height img = HEIGHT"
    using assms(1) by (rule load_scaled_height)
  have bg: "\<forall>c. color_of color = Inr c \<longrightarrow>
              VisualEngine_set_background E color filepath w =
                Inr ((called (C_set_background color filepath) w)
                       \<lparr>background_layer :=
                          blit_all (fill (background_layer w) c) img
                            (map (\<lambda>x. (int x, 0)) ?xs)\<rparr>)"
  proof (intro allI impI)
    fix c
    assume c: "color_of color = Inr c"
    show "VisualEngine_set_background E color filepath w =
                Inr ((called (C_set_background color filepath) w)
                       \<lparr>background_layer :=
                          blit_all (fill (background_layer w) c) img
                            (map (\<lambda>x. (int x, 0)) ?xs)\<rparr>)"
      using set_background_result [OF c assms(1) t, of w]
      by (simp add: background_blits_def)
  qed
  have sc: "VisualEngine_set_scenery E filepath w =
             Inr ((called (C_set_scenery filepath) w)
                    \<lparr>scenery_layer :=
                       blit_all (scenery_layer w) img (map (\<lambda>x. (int x, 0)) ?xs)\<rparr>)"
    using set_scenery_result [OF assms(1) t, of w] by (simp add: scenery_blits_def h)
  have gen: "\<forall>W. \<exists>ys. py_range 0 W (s_width img) = Inr ys \<and>
              ys = map (\<lambda>i. i * s_width img) [0..<length ys] \<and>
              (0 < W \<longrightarrow> ys \<noteq> [] \<and> last ys < W \<and> W \<le> last ys + s_width img) \<and>
              (\<forall>p. p < W \<longrightarrow> (\<exists>t \<in> set ys. t \<le> p \<and> p < t + s_width img))"
    using py_range_tiles [OF assms(2)] by blast
  show ?thesis
    apply (rule exI [of _ ?xs])
    apply (intro conjI)
            apply (rule t)
           apply (rule shape)
          apply (rule e(1))
         apply (rule e(2))
        apply (rule e(3))
       apply (rule cover)
      apply (rule bg)
     apply (rule sc)
    apply (rule gen)
    done
qed

lemma pillar_scaled:
  "load_scaled demo_env (''data/assets/backgrounds/'' @ ''pillar.png'') =
     Inr (transform_scale pillar_image (400, 640))"
proof -
  have h: "0 < s_height pillar_image"
    by (simp add: pillar_image_def)
  show ?thesis
    using load_scaled_image [OF demo_images(5) h]
    by (simp add: scaled_width_div pillar_image_def HEIGHT_def)
qed

lemma pillar_tiles: "tile_xs (transform_scale pillar_image (400, 640)) = Inr [0, 400, 800]"
  by (simp add: tile_xs_def py_range_def WIDTH_def transform_scale_def range_from_step
      range_from_stop)

theorem tiling_covers_width_witness:
  "load_scaled demo_env (''data/assets/backgrounds/'' @ ''pillar.png'') =
     Inr (transform_scale pillar_image (400, 640)) \<and>
   0 < s_width (transform_scale pillar_image (400, 640)) \<and>
   tile_xs (transform_scale pillar_image (400, 640)) = Inr [0, 400, 800] \<and>
   last [0, 400, 800] < WIDTH \<and> WIDTH \<le> last [0, 400, 800] + (400::nat) \<and>
   color_of [PInt 0, PInt 0, PInt 0] = Inr (RGBA 0 0 0 255) \<and>
   VisualEngine_set_background demo_env [PInt 0, PInt 0, PInt 0] ''pillar.png'' start_world =
     Inr ((called (C_set_background [PInt 0, PInt 0, PInt 0] ''pillar.png'') start_world)
            \<lparr>background_layer :=
               blit_all (fill (background_layer start_world) (RGBA 0 0 0 255))
                 (transform_scale pillar_image (400, 640)) [(0, 0), (400, 0), (800, 0)]\<rparr>) \<and>
   VisualEngine_set_scenery demo_env ''pillar.png'' start_world =
     Inr ((called (C_set_scenery ''pillar.png'') start_world)
            \<lparr>scenery_layer :=
               blit_all (scenery_layer start_world)
                 (transform_scale pillar_image (400, 640)) [(0, 0), (400, 0), (800, 0)]\<rparr>)"
proof -
  have p: "0 < s_width (transform_scale pillar_image (400, 640))"
    by (simp add: transform_scale_def)
  have c: "color_of [PInt 0, PInt 0, PInt 0] = Inr (RGBA 0 0 0 255)"
    by simp
  show ?thesis
    using tiling_covers_width [OF pillar_scaled p, of "[PInt 0, PInt 0, PInt 0]" start_world]
      pillar_scaled p pillar_tiles c
    by (simp add: WIDTH_def)
qed


section \<open>Console output\<close>

lemma py_print_str:
  "rich_render E s = Inr t \<Longrightarrow>
   py_print E [Str s] w = Inr (w\<lparr>console := console w @ [[Text t]]\<rparr>)"
  by (simp add: py_print_def)

lemma py_print_str_obj:
  "rich_render E s = Inr t \<Longrightarrow>
   py_print E [Str s, Obj e] w = Inr (w\<lparr>console := console w @ [[Text t, Repr e]]\<rparr>)"
  by (simp add: py_print_def)

lemma demo_render_plain:
  "rich_render demo_env ''splash: '' = Inr ''splash: ''"
  "rich_render demo_env ''Player jump'' = Inr ''Player jump''"
  by (simp_all add: demo_env_def demo_render_def play_message_def)

lemma demo_render_level1:
  "rich_render demo_env (play_message ''data/assets/musics/level1.ogg'') =
     Inr (speaker @ '' Play '' @ [CHR 39] @ ''data/assets/musics/level1.ogg'' @ [CHR 39])"
  by (simp add: demo_env_def demo_render_def play_message_def)

section \<open>Playing state: the events\<close>

lemma playing_quit_key:
  "PlayingState_handle E w (Event KEYDOWN (Some K_q)) = Inr (w\<lparr>done_flag := True\<rparr>)"
  by (simp add: PlayingState_handle_def get_key_def)

lemma playing_jump_key:
  "rich_render E ''Player jump'' = Inr t \<Longrightarrow>
   PlayingState_handle E w (Event KEYDOWN (Some K_SPACE)) =
     Inr (w\<lparr>console := console w @ [[Text t]]\<rparr>)"
  by (simp add: PlayingState_handle_def get_key_def K_q_def K_SPACE_def py_print_str)

lemma playing_left_key:
  "rich_render E ''Player left'' = Inr t \<Longrightarrow>
   PlayingState_handle E w (Event KEYDOWN (Some K_LEFT)) =
     Inr (w\<lparr>console := console w @ [[Text t]]\<rparr>)"
  by (simp add: PlayingState_handle_def get_key_def K_q_def K_SPACE_def K_LEFT_def
      py_print_str)

lemma playing_right_key:
  "rich_render E ''Player right'' = Inr t \<Longrightarrow>
   PlayingState_handle E w (Event KEYDOWN (Some K_RIGHT)) =
     Inr (w\<lparr>console := console w @ [[Text t]]\<rparr>)"
  by (simp add: PlayingState_handle_def get_key_def K_q_def K_SPACE_def K_LEFT_def
      K_RIGHT_def py_print_str)

lemma playing_quit_event: "PlayingState_handle E w (Event QUIT None) = Inl AttributeError"
  by (simp add: PlayingState_handle_def get_key_def)

text \<open>
  C3 fails on the code for the quit event. In the Playing state a key-down of the quit
  key sets \<open>done\<close> and the movement and jump keys only print (the four lemmas above), but
  a quit event has no \<open>key\<close> attribute and the guard \<open>event.key == pygame.K_q\<close> of the
  first \<open>case\<close> is evaluated for it: \<open>process_events\<close> raises \<open>AttributeError\<close> and
  \<open>done\<close> is never set.
\<close>

theorem playing_quit_raises:
  "PlayingState_process_events E w [quit_event] = Inl AttributeError"
  by (simp add: PlayingState_process_events_def quit_event_def playing_quit_event)

text \<open>
  C4 fails on the code for the same reason: when the Playing state is current, the
  driver's \<open>process_events\<close> raises on a queue that starts with a quit event, and the
  events behind it are never handled.
\<close>

theorem process_events_raises_on_quit:
  "process_events E (w\<lparr>current_state := PlayingState\<rparr>) (quit_event # es) = Inl AttributeError"
  by (simp add: process_events_def Let_def called_def PlayingState_process_events_def
      quit_event_def playing_quit_event)

section \<open>Game loop driver\<close>

lemma loop_done: "done_flag w \<Longrightarrow> GameEngine_loop E w qs = Exited w qs"
  by (cases qs) simp_all

lemma rest_of_tick:
  "clock_tick fps (draw (update w)) = w\<lparr>calls := calls w @ [C_update, C_draw, C_tick fps]\<rparr>"
  by (cases "current_state w") (simp_all add: clock_tick_def draw_def update_def called_def)

lemma loop_tick_done:
  assumes "\<not> done_flag w" and "process_events E w q = Inr w1" and "done_flag w1"
  shows "GameEngine_loop E w (q # qs) =
           Exited (w1\<lparr>calls := calls w1 @ [C_update, C_draw, C_tick FPS]\<rparr>) qs"
proof -
  have "GameEngine_loop E w (q # qs) = GameEngine_loop E (clock_tick FPS (draw (update w1))) qs"
    using assms(1,2) by simp
  also have "\<dots> = GameEngine_loop E (w1\<lparr>calls := calls w1 @ [C_update, C_draw, C_tick FPS]\<rparr>) qs"
    by (simp only: rest_of_tick)
  also have "\<dots> = Exited (w1\<lparr>calls := calls w1 @ [C_update, C_draw, C_tick FPS]\<rparr>) qs"
    using assms(3) by (simp add: loop_done)
  finally show ?thesis .
qed

lemma loop_raised:
  assumes "\<not> done_flag w" and "process_events E w q = Inl e"
  shows "GameEngine_loop E w (q # qs) = Raised e"
  using assms by simp

text \<open>
  C6, as the code has it: \<open>done\<close> is read at the top of the loop only. When a
  \<open>process_events\<close> call returns with \<open>done\<close> set, the driver completes the tick in
  progress (one more \<open>update\<close>, one more \<open>draw\<close>, one \<open>clock.tick\<close>) and then leaves the
  loop, before the events of the next tick are read. When the call raises instead,
  whether or not it had set \<open>done\<close>, the loop ends at once with that exception.
\<close>

theorem loop_finishes_tick_then_exits:
  assumes "\<not> done_flag w"
  shows "(\<forall>w1. process_events E w q = Inr w1 \<and> done_flag w1 \<longrightarrow>
            GameEngine_loop E w (q # qs) =
              Exited (w1\<lparr>calls := calls w1 @ [C_update, C_draw, C_tick FPS]\<rparr>) qs) \<and>
         (\<forall>e. process_events E w q = Inl e \<longrightarrow> GameEngine_loop E w (q # qs) = Raised e)"
  using loop_tick_done [OF assms] loop_raised [OF assms] by blast

lemma splash_quit:
  "process_events demo_env start_world [quit_event] =
     Inr (start_world\<lparr>done_flag := True, console := [[Text ''splash: '', Repr quit_event]],
            calls := [C_process_events]\<rparr>)"
  by (simp add: process_events_def Let_def called_def start_world_def
      SplashScreenState_process_events_def SplashScreenState_handle_def
      py_print_str_obj [OF demo_render_plain(1)] quit_event_def)

lemma playing_q_then_quit:
  "process_events E (start_world\<lparr>current_state := PlayingState\<rparr>)
     [Event KEYDOWN (Some K_q), quit_event] = Inl AttributeError"
  by (simp add: process_events_def Let_def called_def PlayingState_process_events_def
      playing_quit_key quit_event_def playing_quit_event)

theorem loop_finishes_tick_then_exits_witness:
  "\<not> done_flag start_world \<and>
   process_events demo_env start_world [quit_event] =
     Inr (start_world\<lparr>done_flag := True, console := [[Text ''splash: '', Repr quit_event]],
            calls := [C_process_events]\<rparr>) \<and>
   GameEngine_loop demo_env start_world [[quit_event], [Event KEYDOWN (Some K_SPACE)]] =
     Exited (start_world\<lparr>done_flag := True,
               console := [[Text ''splash: '', Repr quit_event]],
               calls := [C_process_events, C_update, C_draw, C_tick 60]\<rparr>)
       [[Event KEYDOWN (Some K_SPACE)]] \<and>
   \<not> done_flag (start_world\<lparr>current_state := PlayingState\<rparr>) \<and>
   process_events demo_env (start_world\<lparr>current_state := PlayingState\<rparr>)
     [Event KEYDOWN (Some K_q), quit_event] = Inl AttributeError \<and>
   GameEngine_loop demo_env (start_world\<lparr>current_state := PlayingState\<rparr>)
     [[Event KEYDOWN (Some K_q), quit_event], []] = Raised AttributeError"
proof -
  have n: "\<not> done_flag start_world"
    by (simp add: start_world_def)
  have m: "\<not> done_flag (start_world\<lparr>current_state := PlayingState\<rparr>)"
    by (simp add: start_world_def)
  have a: "GameEngine_loop demo_env start_world [[quit_event], [Event KEYDOWN (Some K_SPACE)]] =
     Exited (start_world\<lparr>done_flag := True,
               console := [[Text ''splash: '', Repr quit_event]],
               calls := [C_process_events, C_update, C_draw, C_tick 60]\<rparr>)
       [[Event KEYDOWN (Some K_SPACE)]]"
    using loop_finishes_tick_then_exits
        [OF n, where E = demo_env and q = "[quit_event]"
           and qs = "[[Event KEYDOWN (Some K_SPACE)]]"]
      splash_quit
    by (simp add: FPS_def)
  have b: "GameEngine_loop demo_env (start_world\<lparr>current_state := PlayingState\<rparr>)
     [[Event KEYDOWN (Some K_q), quit_event], []] = Raised AttributeError"
    using loop_finishes_tick_then_exits
        [OF m, where E = demo_env and q = "[Event KEYDOWN (Some K_q), quit_event]"
           and qs = "[[]]"]
      playing_q_then_quit [of demo_env]
    by blast
  from n m a b splash_quit playing_q_then_quit [of demo_env] show ?thesis by simp
qed

text \<open>
  C6 as stated fails: after the \<open>process_events\<close> that sets \<open>done\<close>, the driver still calls
  \<open>update\<close> and \<open>draw\<close> once each before it leaves the loop.
\<close>

theorem loop_updates_after_done_counterexample:
  "GameEngine_loop demo_env start_world [[quit_event]] =
     Exited (start_world\<lparr>done_flag := True,
               console := [[Text ''splash: '', Repr quit_event]],
               calls := [C_process_events, C_update, C_draw, C_tick 60]\<rparr>) []"
proof -
  have n: "\<not> done_flag start_world"
    by (simp add: start_world_def)
  show ?thesis
    using n by (simp add: splash_quit rest_of_tick loop_done FPS_def)
qed


section \<open>Splash state: the transition to the Playing state\<close>

lemma succeeds_and_then:
  "succeeds (and_then r f) \<Longrightarrow> \<exists>x y. r = Inr x \<and> f x = Inr y"
  by (cases r) (auto simp: succeeds_def split: sum.splits)

lemma str_int_1: "str_int 1 = ''1''"
  by (simp add: str_int_def str_nat.simps)

lemma play_music_result:
  assumes "music_files E (''data/assets/musics/'' @ p)"
      and "rich_render E (play_message (''data/assets/musics/'' @ p)) = Inr t"
  shows "MusicEngine_play_music E p w =
           Inr ((called (C_play_music p) w)
                  \<lparr>console := console (called (C_play_music p) w) @ [[Text t]]\<rparr>)"
  using assms by (simp add: MusicEngine_play_music_def Let_def py_print_str)

lemma write_centered_text_result:
  assumes "font_render E fnt txt = Inr r"
  shows "VisualEngine_write_centered_text E txt fnt color coord w =
           Inr (r, called (C_write_centered_text txt fnt color coord) w)"
  using assms by (simp add: VisualEngine_write_centered_text_def Let_def)

lemma PlayingState_init_result:
  assumes load: "LevelEngine_load E ''world-1'' = Inr lv" and ok: "assets_ok E lv"
  shows "\<exists>w'. PlayingState_init E 1 w = Inr w' \<and>
           calls w' = calls w @ construction_calls lv \<and>
           done_flag w' = done_flag w \<and> current_state w' = current_state w"
proof -
  from ok have m: "music_files E (''data/assets/musics/'' @ music lv)"
    by (simp add: assets_ok_def)
  from ok obtain t where
    t: "rich_render E (play_message (''data/assets/musics/'' @ music lv)) = Inr t"
    using succeeds_Inr [of "rich_render E (play_message (''data/assets/musics/'' @ music lv))"]
    by (auto simp: assets_ok_def)
  from ok obtain r where r: "font_render E FONT_MD (name lv) = Inr r"
    using succeeds_Inr [of "font_render E FONT_MD (name lv)"] by (auto simp: assets_ok_def)
  from ok obtain c where c: "color_of (background_color lv) = Inr c"
    using succeeds_Inr [of "color_of (background_color lv)"] by (auto simp: assets_ok_def)
  from ok obtain bg xs where
    bg: "load_scaled E (''data/assets/backgrounds/'' @ background_img lv) = Inr bg"
      "tile_xs bg = Inr xs"
    using succeeds_and_then [of "load_scaled E (''data/assets/backgrounds/'' @ background_img lv)" tile_xs]
    by (auto simp: assets_ok_def)
  from ok obtain sc ys where
    sc: "load_scaled E (''data/assets/backgrounds/'' @ scenery_img lv) = Inr sc"
      "tile_xs sc = Inr ys"
    using succeeds_and_then [of "load_scaled E (''data/assets/backgrounds/'' @ scenery_img lv)" tile_xs]
    by (auto simp: assets_ok_def)
  show ?thesis
    by (simp add: PlayingState_init_def Let_def str_int_1 load play_music_result [OF m t]
        set_background_result [OF c bg] set_scenery_result [OF sc]
        write_centered_text_result [OF r] called_def construction_calls_def)
qed

lemma splash_handle_result:
  assumes load: "LevelEngine_load E ''world-1'' = Inr lv" and ok: "assets_ok E lv"
      and pr: "rich_render E ''splash: '' = Inr t"
  shows "\<exists>w'. SplashScreenState_handle E w e = Inr w' \<and>
           calls w' = calls w @ (if is_keydown e then construction_calls lv else []) \<and>
           current_state w' = (if is_keydown e then PlayingState else current_state w)"
proof (cases "is_keydown e")
  case True
  let ?w = "w\<lparr>console := console w @ [[Text t, Repr e]]\<rparr>"
  obtain w' where w': "PlayingState_init E 1 ?w = Inr w'"
      "calls w' = calls ?w @ construction_calls lv"
    using PlayingState_init_result [OF load ok, of ?w] by blast
  from True have k: "ev_type e = KEYDOWN" "ev_type e \<noteq> QUIT"
    using event_types_differ by (simp_all add: is_keydown_def)
  show ?thesis
    using True k w' by (simp add: SplashScreenState_handle_def py_print_str_obj [OF pr])
next
  case False
  then show ?thesis
    by (simp add: SplashScreenState_handle_def py_print_str_obj [OF pr] is_keydown_def)
qed

lemma splash_process_events_result:
  assumes load: "LevelEngine_load E ''world-1'' = Inr lv" and ok: "assets_ok E lv"
      and pr: "rich_render E ''splash: '' = Inr t"
  shows "\<exists>w'. for_each (SplashScreenState_handle E) w es = Inr w' \<and>
           calls w' = calls w @ concat (replicate (length (filter is_keydown es)) (construction_calls lv)) \<and>
           current_state w' = (if filter is_keydown es \<noteq> [] then PlayingState else current_state w)"
proof (induction es arbitrary: w)
  case Nil
  show ?case by simp
next
  case (Cons e es)
  obtain w1 where w1: "SplashScreenState_handle E w e = Inr w1"
      "calls w1 = calls w @ (if is_keydown e then construction_calls lv else [])"
      "current_state w1 = (if is_keydown e then PlayingState else current_state w)"
    using splash_handle_result [OF load ok pr, of w e] by blast
  obtain w' where w': "for_each (SplashScreenState_handle E) w1 es = Inr w'"
      "calls w' = calls w1 @ concat (replicate (length (filter is_keydown es)) (construction_calls lv))"
      "current_state w' = (if filter is_keydown es \<noteq> [] then PlayingState else current_state w1)"
    using Cons.IH [of w1] by blast
  show ?case
    using w1 w' by simp
qed

text \<open>
  C5, as the code has it. When level 1 loads, its assets are accepted (the mixer plays
  the music, the color is valid, both images load, rescale and tile, the font renders
  the title) and \<open>rich\<close> renders the two console messages, \<open>process_events\<close> of the Splash
  state completes on every queue; every key-down event of the queue constructs one
  Playing state for level 1, so the construction's side effects (load \<open>world-1\<close>, play
  music, set background, set scenery, draw the title) fire once per key-down event, in
  this order: exactly once each when the queue holds one key-down, \<open>n\<close> times for \<open>n\<close>.
  With at least one key-down the driver's current state is the Playing state.
\<close>

theorem splash_keydown_constructs_per_event:
  assumes "LevelEngine_load E ''world-1'' = Inr lv" and "assets_ok E lv"
      and "succeeds (rich_render E ''splash: '')"
  shows "\<exists>w'. SplashScreenState_process_events E w es = Inr w' \<and>
           calls w' =
             calls w @ concat (replicate (length (filter is_keydown es)) (construction_calls lv)) \<and>
           (filter is_keydown es \<noteq> [] \<longrightarrow> current_state w' = PlayingState)"
proof -
  obtain t where t: "rich_render E ''splash: '' = Inr t"
    using succeeds_Inr [OF assms(3)] by blast
  show ?thesis
    using splash_process_events_result [OF assms(1,2) t, of w es]
    by (auto simp: SplashScreenState_process_events_def)
qed

lemma flat_scaled:
  "images demo_env path = Some (flat_image c) \<Longrightarrow>
   load_scaled demo_env path = Inr (transform_scale (flat_image c) (960, 640))"
proof -
  assume i: "images demo_env path = Some (flat_image c)"
  have h: "0 < s_height (flat_image c)"
    by (simp add: flat_image_def)
  show ?thesis
    using load_scaled_image [OF i h]
    by (simp add: scaled_width_div flat_image_def HEIGHT_def)
qed

lemma tile_xs_scaled: "tile_xs (transform_scale img (960, 640)) = Inr [0]"
  by (rule tile_xs_960) (simp add: transform_scale_def)

lemma demo_assets_ok: "assets_ok demo_env world1_level"
proof -
  have m: "music_files demo_env (''data/assets/musics/'' @ music world1_level)"
    by (simp add: demo_env_def)
  have p: "succeeds (rich_render demo_env
             (play_message (''data/assets/musics/'' @ music world1_level)))"
    using demo_render_level1 by (simp add: world1_level_def succeeds_def)
  have f: "succeeds (font_render demo_env FONT_MD (name world1_level))"
    by (simp add: demo_env_def succeeds_def)
  have c: "succeeds (color_of (background_color world1_level))"
    by (simp add: world1_level_def succeeds_def)
  have b: "load_scaled demo_env (''data/assets/backgrounds/'' @ background_img world1_level) =
             Inr (transform_scale (flat_image (RGBA 0 0 255 255)) (960, 640))"
    using flat_scaled [OF demo_images(3)] by (simp add: world1_level_def)
  have s: "load_scaled demo_env (''data/assets/backgrounds/'' @ scenery_img world1_level) =
             Inr (transform_scale grass_image (960, 640))"
    using grass_scaled by (simp add: world1_level_def)
  show ?thesis
    unfolding assets_ok_def b s using m p f c by (simp add: tile_xs_scaled succeeds_def)
qed

lemma demo_splash_message: "succeeds (rich_render demo_env ''splash: '')"
  by (simp add: demo_render_plain(1) succeeds_def)

theorem splash_keydown_constructs_per_event_witness:
  "LevelEngine_load demo_env ''world-1'' = Inr world1_level \<and> assets_ok demo_env world1_level \<and>
   succeeds (rich_render demo_env ''splash: '') \<and>
   filter is_keydown [Event KEYDOWN (Some K_SPACE)] \<noteq> [] \<and>
   (\<exists>w'. SplashScreenState_process_events demo_env start_world [Event KEYDOWN (Some K_SPACE)] =
            Inr w' \<and>
      calls w' =
        [C_load ''world-1'', C_play_music ''level1.ogg'',
         C_set_background [PInt 135, PInt 206, PInt 235] ''hills.png'',
         C_set_scenery ''grass.png'',
         C_write_centered_text ''World 1'' FONT_MD (0, 0, 0) (480, 16)] \<and>
      current_state w' = PlayingState)"
proof -
  have k: "is_keydown (Event KEYDOWN (Some K_SPACE))"
    by (simp add: is_keydown_def)
  have cs: "construction_calls world1_level =
        [C_load ''world-1'', C_play_music ''level1.ogg'',
         C_set_background [PInt 135, PInt 206, PInt 235] ''hills.png'',
         C_set_scenery ''grass.png'',
         C_write_centered_text ''World 1'' FONT_MD (0, 0, 0) (480, 16)]"
    by (simp add: construction_calls_def world1_level_def WIDTH_def)
  have s: "calls start_world = []"
    by (simp add: start_world_def)
  show ?thesis
    using splash_keydown_constructs_per_event [OF load_world1 demo_assets_ok demo_splash_message,
        of start_world "[Event KEYDOWN (Some K_SPACE)]"]
      load_world1 demo_assets_ok demo_splash_message
    by (simp add: k cs s)
qed

text \<open>
  C5 as stated fails: on a queue with two key-down events every construction-time side
  effect fires twice; the music of level 1 is started two times.
\<close>

theorem splash_two_keydowns_counterexample:
  "count_list
     (result_calls (SplashScreenState_process_events demo_env start_world
        [Event KEYDOWN (Some K_SPACE), Event KEYDOWN (Some K_LEFT)]))
     (C_play_music ''level1.ogg'') = 2"
proof -
  let ?es = "[Event KEYDOWN (Some K_SPACE), Event KEYDOWN (Some K_LEFT)]"
  have k: "length (filter is_keydown ?es) = 2"
    by (simp add: is_keydown_def)
  obtain w' where w': "for_each (SplashScreenState_handle demo_env) start_world ?es = Inr w'"
      "calls w' = calls start_world @
         concat (replicate (length (filter is_keydown ?es)) (construction_calls world1_level))"
    using splash_process_events_result
        [OF load_world1 demo_assets_ok demo_render_plain(1), of start_world ?es]
    by blast
  have "calls w' = construction_calls world1_level @ construction_calls world1_level"
    unfolding w'(2) k by (simp add: start_world_def numeral_2_eq_2)
  then show ?thesis
    using w'(1)
    by (simp add: SplashScreenState_process_events_def result_calls_def
        construction_calls_def world1_level_def)
qed


section \<open>Scene compositor: what a set call leaves in its layer\<close>

lemma same_picture_fill: 
  "s_width a = s_width b \<Longrightarrow> s_height a = s_height b \<Longrightarrow> same_picture (fill a c) (fill b c)"
  by (simp add: same_picture_def fill_def inside_def)

lemma same_picture_blit:
  "same_picture a b \<Longrightarrow> same_picture (blit a img p) (blit b img p)"
  by (cases p) (simp add: same_picture_def blit_def inside_def)

lemma same_picture_blit_all:
  "same_picture a b \<Longrightarrow> same_picture (blit_all a img ps) (blit_all b img ps)"
  unfolding blit_all_def
  by (induction ps arbitrary: a b) (simp_all add: same_picture_blit)

text \<open>
  \<open>set_background\<close> fills its layer before it tiles the image: the picture it leaves
  does not depend on what the layer showed before.
\<close>

lemma set_background_refills:
  assumes "s_width (background_layer w) = s_width (background_layer v)"
      and "s_height (background_layer w) = s_height (background_layer v)"
      and "VisualEngine_set_background E color filepath w = Inr w'"
      and "VisualEngine_set_background E color filepath v = Inr v'"
  shows "same_picture (background_layer w') (background_layer v')"
proof -
  from assms(3) obtain c img xs where
    r: "color_of color = Inr c"
       "load_scaled E (''data/assets/backgrounds/'' @ filepath) = Inr img"
       "tile_xs img = Inr xs"
    by (auto simp: VisualEngine_set_background_def Let_def and_then_def split: sum.splits)
  have "same_picture
          (blit_all (fill (background_layer w) c) img (background_blits img xs))
          (blit_all (fill (background_layer v) c) img (background_blits img xs))"
    using assms(1,2) by (intro same_picture_blit_all same_picture_fill)
  then show ?thesis
    using assms(3,4) by (auto simp: set_background_result [OF r])
qed

text \<open>
  C9 fails on the code for \<open>set_scenery\<close>, which never clears its layer. After
  \<open>set_scenery("ground.png")\<close> (the splash screen) and then \<open>set_scenery("grass.png")\<close>
  (level 1), the top-left pixel of the scenery layer still shows the ground of the
  splash screen, where \<open>grass.png\<close> is transparent; the same call on a fresh layer
  leaves that pixel transparent.
\<close>

theorem scenery_keeps_previous_pixels:
  "result_pixel (VisualEngine_set_scenery demo_env ''grass.png'' start_world) 0 0 =
     Inr (RGBA 0 0 0 0) \<and>
   result_pixel
     (and_then (VisualEngine_set_scenery demo_env ''ground.png'' start_world)
        (VisualEngine_set_scenery demo_env ''grass.png'')) 0 0 =
     Inr (RGBA 96 64 0 255)"
proof -
  have ground: "load_scaled demo_env (''data/assets/backgrounds/'' @ ''ground.png'') =
      Inr (transform_scale (flat_image (RGBA 96 64 0 255)) (960, 640))"
    using flat_scaled [OF demo_images(2)] by simp
  have grass: "load_scaled demo_env (''data/assets/backgrounds/'' @ ''grass.png'') =
      Inr (transform_scale grass_image (960, 640))"
    using grass_scaled by simp
  have fresh: "result_pixel (VisualEngine_set_scenery demo_env ''grass.png'' start_world) 0 0 =
     Inr (RGBA 0 0 0 0)"
    by (simp add: set_scenery_result [OF grass tile_xs_scaled] result_pixel_def
        scenery_blits_def blit_all_def blit_def inside_def transform_scale_def
        start_world_def new_layer_def called_def grass_image_def WIDTH_def HEIGHT_def)
  have stale: "result_pixel
     (and_then (VisualEngine_set_scenery demo_env ''ground.png'' start_world)
        (VisualEngine_set_scenery demo_env ''grass.png'')) 0 0 =
     Inr (RGBA 96 64 0 255)"
    by (simp add: set_scenery_result [OF ground tile_xs_scaled]
        set_scenery_result [OF grass tile_xs_scaled] result_pixel_def
        scenery_blits_def blit_all_def blit_def inside_def transform_scale_def
        start_world_def new_layer_def called_def grass_image_def flat_image_def
        blend_channel_def WIDTH_def HEIGHT_def)
  from fresh stale show ?thesis by simp
qed

end
